theory Spec2Isabelle
  imports Complex_Main "HOL-Library.Log_Nat"
begin

section \<open>Numbers and errors\<close>

text \<open>
  A Python float is an IEEE 754 binary64 number. A finite double is modelled as the real
  number it denotes, and a float operation of the source as the exact operation followed
  by \<open>fl\<close>, which rounds a real to the nearest double, ties to the even mantissa: 53
  bits of mantissa above \<open>2 ^ - 1022\<close>, multiples of \<open>2 ^ - 1074\<close> below. Comparisons
  of doubles are comparisons of reals. Infinities and NaN are not modelled: the exponent
  of \<open>fl\<close> has no upper end. Exceptions are values of type \<open>error\<close>; a function of
  the source that can raise returns \<open>error + 'a\<close>.
\<close>

datatype error = ZeroDivisionError | KeyError

definition py_round :: "real \<Rightarrow> int" where
  \<comment> \<open>\<open>round(x)\<close>: nearest integer, ties to the even one.\<close>
  "py_round x =
     (let f = \<lfloor>x\<rfloor>; d = x - of_int f
      in if d < 1 / 2 then f
         else if 1 / 2 < d then f + 1
         else if even f then f else f + 1)"

definition pow2 :: "int \<Rightarrow> real" where
  "pow2 k = (if 0 \<le> k then 2 ^ nat k else 1 / 2 ^ nat (- k))"

definition expo :: "real \<Rightarrow> int" where
  \<comment> \<open>the binary exponent of a positive real: \<open>pow2 (expo x) \<le> x < pow2 (expo x + 1)\<close>\<close>
  "expo x = (if 1 \<le> x then bitlen \<lfloor>x\<rfloor> - 1 else - bitlen (\<lceil>1 / x\<rceil> - 1))"

definition fl :: "real \<Rightarrow> real" where
  \<comment> \<open>the double nearest to \<open>x\<close>\<close>
  "fl x =
     (if x = 0 then 0
      else (let q = pow2 (max (expo \<bar>x\<bar>) (- 1022) - 52)
            in of_int (py_round (x / q)) * q))"

definition float_add :: "real \<Rightarrow> real \<Rightarrow> real" where
  "float_add a b = fl (a + b)"

definition float_sub :: "real \<Rightarrow> real \<Rightarrow> real" where
  "float_sub a b = fl (a - b)"

definition float_mul :: "real \<Rightarrow> real \<Rightarrow> real" where
  "float_mul a b = fl (a * b)"

definition py_truediv :: "real \<Rightarrow> real \<Rightarrow> error + real" where
  \<comment> \<open>\<open>a / b\<close>\<close>
  "py_truediv a b = (if b = 0 then Inl ZeroDivisionError else Inr (fl (a / b)))"

definition py_round1 :: "real \<Rightarrow> real" where
  \<comment> \<open>\<open>round(x, 1)\<close>: the double nearest to the decimal with one fractional digit that
      is nearest to \<open>x\<close>, ties to the even digit.\<close>
  "py_round1 x = fl (of_int (py_round (x * 10)) / 10)"

section \<open>Text\<close>

text \<open>
  A Python \<open>str\<close> is modelled as a list of 8-bit characters, each read as the code
  point of the same number (U+0000 to U+00FF). The character classes below are Python's
  own on that range: \<open>str.isspace\<close> (which is also \<open>\s\<close> of a \<open>str\<close> pattern),
  \<open>\d\<close>, \<open>\w\<close>, \<open>str.lower\<close> and the line boundaries of \<open>str.splitlines\<close>.
\<close>

definition code :: "char \<Rightarrow> int" where
  "code c = of_char c"

definition isspace :: "char \<Rightarrow> bool" where
  "isspace c = (let n = code c in (9 \<le> n \<and> n \<le> 13) \<or> (28 \<le> n \<and> n \<le> 32) \<or> n = 133 \<or> n = 160)"

definition ascii_digit :: "char \<Rightarrow> bool" where
  "ascii_digit c = (let n = code c in 48 \<le> n \<and> n \<le> 57)"

definition ascii_alpha :: "char \<Rightarrow> bool" where
  "ascii_alpha c = (let n = code c in (65 \<le> n \<and> n \<le> 90) \<or> (97 \<le> n \<and> n \<le> 122))"

definition isdecimal :: "char \<Rightarrow> bool" where
  \<comment> \<open>\<open>\d\<close>: below U+0100 the decimal digits are the ASCII ones.\<close>
  "isdecimal c = ascii_digit c"

definition isword :: "char \<Rightarrow> bool" where
  \<comment> \<open>\<open>\w\<close>: alphanumeric (\<open>str.isalnum\<close>) or underscore.\<close>
  "isword c =
     (let n = code c
      in ascii_digit c \<or> ascii_alpha c \<or> n = 95
         \<or> n = 170 \<or> n = 178 \<or> n = 179 \<or> n = 181 \<or> n = 185 \<or> n = 186
         \<or> (188 \<le> n \<and> n \<le> 190)
         \<or> (192 \<le> n \<and> n \<le> 214) \<or> (216 \<le> n \<and> n \<le> 246) \<or> 248 \<le> n)"

definition lower_char :: "char \<Rightarrow> char" where
  "lower_char c =
     (let n = code c
      in if (65 \<le> n \<and> n \<le> 90) \<or> (192 \<le> n \<and> n \<le> 214) \<or> (216 \<le> n \<and> n \<le> 222)
         then char_of (n + 32) else c)"

definition lower :: "string \<Rightarrow> string" where
  "lower s = map lower_char s"

definition strip :: "string \<Rightarrow> string" where
  "strip s = rev (dropWhile isspace (rev (dropWhile isspace s)))"

definition rstrip_chars :: "string \<Rightarrow> string \<Rightarrow> string" where
  \<comment> \<open>\<open>s.rstrip(chars)\<close>\<close>
  "rstrip_chars chars s = rev (dropWhile (\<lambda>c. c \<in> set chars) (rev s))"

definition linebreak :: "char \<Rightarrow> bool" where
  "linebreak c = (let n = code c in (10 \<le> n \<and> n \<le> 13) \<or> (28 \<le> n \<and> n \<le> 30) \<or> n = 133)"

fun splitlines_aux :: "string \<Rightarrow> string \<Rightarrow> string list" where
  "splitlines_aux cur [] = (if cur = [] then [] else [rev cur])"
| "splitlines_aux cur (c # cs) =
     (if linebreak c then
        (case cs of
           d # ds \<Rightarrow>
             if code c = 13 \<and> code d = 10 then rev cur # splitlines_aux [] ds
             else rev cur # splitlines_aux [] cs
         | [] \<Rightarrow> rev cur # splitlines_aux [] cs)
      else splitlines_aux (c # cur) cs)"

definition splitlines :: "string \<Rightarrow> string list" where
  "splitlines text = splitlines_aux [] text"

fun digits_value :: "string \<Rightarrow> nat \<Rightarrow> nat" where
  "digits_value [] acc = acc"
| "digits_value (c # cs) acc = digits_value cs (10 * acc + nat (code c - 48))"

definition py_float :: "string \<Rightarrow> real option" where
  \<comment> \<open>\<open>float(s)\<close> on the strings the value group of the two line patterns can capture,
      \<open>digits\<close> or \<open>digits.digits\<close>: the double nearest to the decimal number.
      \<open>None\<close> is \<open>ValueError\<close>.\<close>
  "py_float s =
     (let ip = takeWhile ascii_digit s; r = dropWhile ascii_digit s
      in if ip = [] then None
         else if r = [] then Some (fl (real (digits_value ip 0)))
         else (case r of
                 d # fp \<Rightarrow>
                   if d = CHR ''.'' \<and> fp \<noteq> [] \<and> list_all ascii_digit fp
                   then Some (fl (real (digits_value ip 0) + real (digits_value fp 0) / 10 ^ length fp))
                   else None
               | [] \<Rightarrow> None))"

section \<open>Regular expressions\<close>

text \<open>
  The patterns of the parser are values of \<open>re\<close>, matched as Python's backtracking
  matcher does: \<open>rm r st\<close> lists the states in which \<open>r\<close> can end when started in
  \<open>st\<close>, in the order in which backtracking reaches them, so the head of the list is the
  match that \<open>re.match\<close> reports. A state is the text consumed so far (reversed), the text
  ahead and the groups bound so far, the latest binding first.
\<close>

datatype re =
    Eps
  | Cls "char \<Rightarrow> bool"
  | Seq re re
  | Alt re re
  | Star re
  | LazyStar re
  | Bol
  | WordB
  | Grp string re

type_synonym mstate = "string \<times> string \<times> (string \<times> string) list"

definition ahead :: "mstate \<Rightarrow> string" where
  "ahead st = fst (snd st)"

fun iter_greedy :: "(mstate \<Rightarrow> mstate list) \<Rightarrow> nat \<Rightarrow> mstate \<Rightarrow> mstate list" where
  "iter_greedy f 0 st = [st]"
| "iter_greedy f (Suc n) st =
     concat (map (\<lambda>st'. if length (ahead st') < length (ahead st) then iter_greedy f n st' else [])
                 (f st)) @ [st]"

fun iter_lazy :: "(mstate \<Rightarrow> mstate list) \<Rightarrow> nat \<Rightarrow> mstate \<Rightarrow> mstate list" where
  "iter_lazy f 0 st = [st]"
| "iter_lazy f (Suc n) st =
     st # concat (map (\<lambda>st'. if length (ahead st') < length (ahead st) then iter_lazy f n st' else [])
                      (f st))"

definition at_boundary :: "mstate \<Rightarrow> bool" where
  \<comment> \<open>\<open>\b\<close>: exactly one of the characters before and after the position is a word
      character; the ends of the text count as a non-word character.\<close>
  "at_boundary st =
     ((case fst st of [] \<Rightarrow> False | p # _ \<Rightarrow> isword p)
      \<noteq> (case ahead st of [] \<Rightarrow> False | c # _ \<Rightarrow> isword c))"

primrec rm :: "re \<Rightarrow> mstate \<Rightarrow> mstate list" where
  "rm Eps st = [st]"
| "rm (Cls p) st =
     (case st of
        (b, c # cs, g) \<Rightarrow> if p c then [(c # b, cs, g)] else []
      | (b, [], g) \<Rightarrow> [])"
| "rm (Seq r1 r2) st = concat (map (rm r2) (rm r1 st))"
| "rm (Alt r1 r2) st = rm r1 st @ rm r2 st"
| "rm (Star r) st = iter_greedy (rm r) (length (ahead st)) st"
| "rm (LazyStar r) st = iter_lazy (rm r) (length (ahead st)) st"
| "rm Bol st = (if fst st = [] then [st] else [])"
| "rm WordB st = (if at_boundary st then [st] else [])"
| "rm (Grp n r) st =
     map (\<lambda>(b, cs, g). (b, cs, (n, take (length (ahead st) - length cs) (ahead st)) # g))
         (rm r st)"

definition Plus :: "re \<Rightarrow> re" where
  "Plus r = Seq r (Star r)"

definition LazyPlus :: "re \<Rightarrow> re" where
  "LazyPlus r = Seq r (LazyStar r)"

definition Opt :: "re \<Rightarrow> re" where
  "Opt r = Alt r Eps"

definition chr :: "char \<Rightarrow> re" where
  "chr c = Cls (\<lambda>x. x = c)"

definition chr_i :: "char \<Rightarrow> re" where
  \<comment> \<open>a letter of a pattern compiled with \<open>re.IGNORECASE\<close>\<close>
  "chr_i c = Cls (\<lambda>x. lower_char x = lower_char c)"

definition str_i :: "string \<Rightarrow> re" where
  "str_i s = foldr (\<lambda>c r. Seq (chr_i c) r) s Eps"

definition seq :: "re list \<Rightarrow> re" where
  "seq rs = foldr Seq rs Eps"

definition alt :: "re list \<Rightarrow> re" where
  \<comment> \<open>\<open>r1 | r2 | ...\<close> of a non-empty list\<close>
  "alt rs = foldr Alt (butlast rs) (last rs)"

definition re_match :: "re \<Rightarrow> string \<Rightarrow> (string \<times> string) list option" where
  \<comment> \<open>\<open>pattern.match(s)\<close>: the groups of the first match at the start of \<open>s\<close>\<close>
  "re_match r s = (case rm r ([], s, []) of [] \<Rightarrow> None | (b, cs, g) # _ \<Rightarrow> Some g)"

definition re_fullmatch :: "re \<Rightarrow> string \<Rightarrow> bool" where
  "re_fullmatch r s = list_ex (\<lambda>st. ahead st = []) (rm r ([], s, []))"

fun search_from :: "re \<Rightarrow> string \<Rightarrow> string \<Rightarrow> bool" where
  "search_from r b [] = (rm r (b, [], []) \<noteq> [])"
| "search_from r b (c # cs) = (rm r (b, c # cs, []) \<noteq> [] \<or> search_from r (c # b) cs)"

definition re_search :: "re \<Rightarrow> string \<Rightarrow> bool" where
  \<comment> \<open>\<open>bool(pattern.search(s))\<close>\<close>
  "re_search r s = search_from r [] s"

function sub_spaces :: "string \<Rightarrow> string" where
  \<comment> \<open>\<open>re.sub(r"\s+", " ", s)\<close>: every maximal run of whitespace becomes one space\<close>
  "sub_spaces [] = []"
| "sub_spaces (c # cs) =
     (if isspace c then CHR '' '' # sub_spaces (dropWhile isspace cs) else c # sub_spaces cs)"
  by pat_completeness auto
termination
  by (relation "measure length") (auto simp: less_Suc_eq_le length_dropWhile_le)

section \<open>Reference catalog\<close>

record ReferenceRange =
  min_value :: real
  max_value :: real
  unit :: string
  aliases :: "string list"

text \<open>
  The dictionary \<open>NORMAL_RANGES\<close> in the order of its literal, as an association list;
  its keys are pairwise distinct, so the list is the dictionary. A float literal that is
  not itself a double stands for the nearest one: \<open>0.1\<close> is \<open>fl 0.1\<close>.
\<close>
definition NORMAL_RANGES :: "(string \<times> ReferenceRange) list" where
  "NORMAL_RANGES =
     [
      (''hemoglobin'',
       \<lparr>min_value = 12, max_value = 17.5, unit = ''g/dL'',
        aliases = [''hb'', ''hgb'', ''haemoglobin'']\<rparr>),
      (''hematocrit'',
       \<lparr>min_value = 36, max_value = 50, unit = ''%'',
        aliases = [''hct'', ''pcv'', ''packed cell volume'']\<rparr>),
      (''rbc'',
       \<lparr>min_value = 4, max_value = 6, unit = (''million/'' @ [CHR 0xB5] @ ''L''),
        aliases = [''red blood cells'', ''red blood cell count'', ''rbc count'', ''erythrocytes'']\<rparr>),
      (''wbc'',
       \<lparr>min_value = 4, max_value = 11, unit = (''thousand/'' @ [CHR 0xB5] @ ''L''),
        aliases = [''white blood cells'', ''white blood cell count'', ''wbc count'', ''leukocytes'', ''total wbc'', ''total leucocyte count'', ''tlc'']\<rparr>),
      (''platelets'',
       \<lparr>min_value = 150, max_value = 400, unit = (''thousand/'' @ [CHR 0xB5] @ ''L''),
        aliases = [''platelet count'', ''plt'', ''thrombocytes'']\<rparr>),
      (''mcv'',
       \<lparr>min_value = 80, max_value = 100, unit = ''fL'',
        aliases = [''mean corpuscular volume'']\<rparr>),
      (''mch'',
       \<lparr>min_value = 27, max_value = 33, unit = ''pg'',
        aliases = [''mean corpuscular hemoglobin'']\<rparr>),
      (''mchc'',
       \<lparr>min_value = 32, max_value = 36, unit = ''g/dL'',
        aliases = [''mean corpuscular hemoglobin concentration'']\<rparr>),
      (''rdw'',
       \<lparr>min_value = 11.5, max_value = 14.5, unit = ''%'',
        aliases = [''red cell distribution width'', ''rdw-cv'']\<rparr>),
      (''mpv'',
       \<lparr>min_value = 7.5, max_value = 11.5, unit = ''fL'',
        aliases = [''mean platelet volume'']\<rparr>),
      (''total cholesterol'',
       \<lparr>min_value = 0, max_value = 200, unit = ''mg/dL'',
        aliases = [''cholesterol'', ''cholesterol total'', ''tc'', ''serum cholesterol'']\<rparr>),
      (''ldl'',
       \<lparr>min_value = 0, max_value = 100, unit = ''mg/dL'',
        aliases = [''ldl cholesterol'', ''ldl-c'', ''low density lipoprotein'', ''bad cholesterol'']\<rparr>),
      (''hdl'',
       \<lparr>min_value = 40, max_value = 60, unit = ''mg/dL'',
        aliases = [''hdl cholesterol'', ''hdl-c'', ''high density lipoprotein'', ''good cholesterol'']\<rparr>),
      (''triglycerides'',
       \<lparr>min_value = 0, max_value = 150, unit = ''mg/dL'',
        aliases = [''tg'', ''trigs'', ''triglyceride'']\<rparr>),
      (''vldl'',
       \<lparr>min_value = 2, max_value = 30, unit = ''mg/dL'',
        aliases = [''vldl cholesterol'', ''very low density lipoprotein'']\<rparr>),
      (''sgot'',
       \<lparr>min_value = 5, max_value = 40, unit = ''U/L'',
        aliases = [''ast'', ''aspartate aminotransferase'', ''sgot (ast)'']\<rparr>),
      (''sgpt'',
       \<lparr>min_value = 7, max_value = 56, unit = ''U/L'',
        aliases = [''alt'', ''alanine aminotransferase'', ''sgpt (alt)'']\<rparr>),
      (''alkaline phosphatase'',
       \<lparr>min_value = 44, max_value = 147, unit = ''U/L'',
        aliases = [''alp'', ''alk phos'', ''alkp'']\<rparr>),
      (''total bilirubin'',
       \<lparr>min_value = fl 0.1, max_value = fl 1.2, unit = ''mg/dL'',
        aliases = [''bilirubin'', ''bilirubin total'', ''t. bilirubin'', ''tbil'']\<rparr>),
      (''direct bilirubin'',
       \<lparr>min_value = 0, max_value = fl 0.3, unit = ''mg/dL'',
        aliases = [''conjugated bilirubin'', ''d. bilirubin'', ''dbil'']\<rparr>),
      (''albumin'',
       \<lparr>min_value = 3.5, max_value = 5.5, unit = ''g/dL'',
        aliases = [''serum albumin'', ''alb'']\<rparr>),
      (''globulin'',
       \<lparr>min_value = 2, max_value = 3.5, unit = ''g/dL'',
        aliases = [''serum globulin'']\<rparr>),
      (''total protein'',
       \<lparr>min_value = 6, max_value = fl 8.3, unit = ''g/dL'',
        aliases = [''protein total'', ''tp'', ''serum protein'']\<rparr>),
      (''ag ratio'',
       \<lparr>min_value = 1, max_value = 2.5, unit = '''',
        aliases = [''albumin/globulin ratio'', ''a/g ratio'', ''a:g ratio'']\<rparr>),
      (''ggt'',
       \<lparr>min_value = 0, max_value = 45, unit = ''U/L'',
        aliases = [''gamma gt'', ''gamma-glutamyl transferase'', ''ggtp'']\<rparr>),
      (''creatinine'',
       \<lparr>min_value = fl 0.6, max_value = fl 1.2, unit = ''mg/dL'',
        aliases = [''serum creatinine'', ''creat'', ''s. creatinine'']\<rparr>),
      (''bun'',
       \<lparr>min_value = 7, max_value = 20, unit = ''mg/dL'',
        aliases = [''blood urea nitrogen'', ''urea nitrogen'']\<rparr>),
      (''urea'',
       \<lparr>min_value = 15, max_value = 45, unit = ''mg/dL'',
        aliases = [''blood urea'', ''serum urea'']\<rparr>),
      (''uric acid'',
       \<lparr>min_value = 3, max_value = 7, unit = ''mg/dL'',
        aliases = [''serum uric acid'', ''urate'']\<rparr>),
      (''egfr'',
       \<lparr>min_value = 90, max_value = 120, unit = (''mL/min/1.73m'' @ [CHR 0xB2]),
        aliases = [''estimated gfr'', ''glomerular filtration rate'', ''estimated glomerular filtration rate'']\<rparr>),
      (''fasting glucose'',
       \<lparr>min_value = 70, max_value = 100, unit = ''mg/dL'',
        aliases = [''fasting blood sugar'', ''fbs'', ''glucose fasting'', ''fasting plasma glucose'', ''fpg'', ''blood sugar fasting'']\<rparr>),
      (''random glucose'',
       \<lparr>min_value = 70, max_value = 140, unit = ''mg/dL'',
        aliases = [''random blood sugar'', ''rbs'', ''glucose random'', ''blood sugar random'']\<rparr>),
      (''hba1c'',
       \<lparr>min_value = 4, max_value = fl 5.6, unit = ''%'',
        aliases = [''glycated hemoglobin'', ''glycosylated hemoglobin'', ''a1c'', ''hemoglobin a1c'', ''hb a1c'']\<rparr>),
      (''pp glucose'',
       \<lparr>min_value = 70, max_value = 140, unit = ''mg/dL'',
        aliases = [''postprandial glucose'', ''post prandial blood sugar'', ''ppbs'', ''glucose pp'']\<rparr>),
      (''tsh'',
       \<lparr>min_value = fl 0.4, max_value = 4, unit = ''mIU/L'',
        aliases = [''thyroid stimulating hormone'', ''thyrotropin'']\<rparr>),
      (''t3'',
       \<lparr>min_value = 80, max_value = 200, unit = ''ng/dL'',
        aliases = [''triiodothyronine'', ''total t3'', ''serum t3'']\<rparr>),
      (''t4'',
       \<lparr>min_value = 5, max_value = 12, unit = ([CHR 0xB5] @ ''g/dL''),
        aliases = [''thyroxine'', ''total t4'', ''serum t4'']\<rparr>),
      (''free t3'',
       \<lparr>min_value = fl 2.3, max_value = fl 4.2, unit = ''pg/mL'',
        aliases = [''ft3'']\<rparr>),
      (''free t4'',
       \<lparr>min_value = fl 0.8, max_value = fl 1.8, unit = ''ng/dL'',
        aliases = [''ft4'', ''free thyroxine'']\<rparr>),
      (''sodium'',
       \<lparr>min_value = 136, max_value = 145, unit = ''mEq/L'',
        aliases = [''na'', ''na+'', ''serum sodium'']\<rparr>),
      (''potassium'',
       \<lparr>min_value = 3.5, max_value = 5, unit = ''mEq/L'',
        aliases = [''k'', ''k+'', ''serum potassium'']\<rparr>),
      (''chloride'',
       \<lparr>min_value = 98, max_value = 106, unit = ''mEq/L'',
        aliases = [''cl'', ''cl-'', ''serum chloride'']\<rparr>),
      (''calcium'',
       \<lparr>min_value = 8.5, max_value = 10.5, unit = ''mg/dL'',
        aliases = [''ca'', ''serum calcium'', ''total calcium'']\<rparr>),
      (''phosphorus'',
       \<lparr>min_value = 2.5, max_value = 4.5, unit = ''mg/dL'',
        aliases = [''phosphate'', ''serum phosphorus'', ''po4'']\<rparr>),
      (''magnesium'',
       \<lparr>min_value = fl 1.7, max_value = fl 2.2, unit = ''mg/dL'',
        aliases = [''mg'', ''serum magnesium'']\<rparr>),
      (''iron'',
       \<lparr>min_value = 60, max_value = 170, unit = ([CHR 0xB5] @ ''g/dL''),
        aliases = [''serum iron'', ''fe'']\<rparr>),
      (''ferritin'',
       \<lparr>min_value = 12, max_value = 300, unit = ''ng/mL'',
        aliases = [''serum ferritin'']\<rparr>),
      (''tibc'',
       \<lparr>min_value = 250, max_value = 370, unit = ([CHR 0xB5] @ ''g/dL''),
        aliases = [''total iron binding capacity'']\<rparr>),
      (''vitamin d'',
       \<lparr>min_value = 30, max_value = 100, unit = ''ng/mL'',
        aliases = [''25-hydroxy vitamin d'', ''25(oh)d'', ''vit d'', ''vitamin d3'']\<rparr>),
      (''vitamin b12'',
       \<lparr>min_value = 200, max_value = 900, unit = ''pg/mL'',
        aliases = [''b12'', ''cobalamin'', ''vit b12'']\<rparr>),
      (''folate'',
       \<lparr>min_value = fl 2.7, max_value = 17, unit = ''ng/mL'',
        aliases = [''folic acid'', ''serum folate'', ''vitamin b9'']\<rparr>),
      (''esr'',
       \<lparr>min_value = 0, max_value = 20, unit = ''mm/hr'',
        aliases = [''erythrocyte sedimentation rate'', ''sed rate'']\<rparr>),
      (''crp'',
       \<lparr>min_value = 0, max_value = 3, unit = ''mg/L'',
        aliases = [''c-reactive protein'', ''c reactive protein'', ''hs-crp'']\<rparr>),
      (''psa'',
       \<lparr>min_value = 0, max_value = 4, unit = ''ng/mL'',
        aliases = [''prostate specific antigen'']\<rparr>)]"

definition add_aliases :: "string \<Rightarrow> string list \<Rightarrow> (string \<rightharpoonup> string) \<Rightarrow> (string \<rightharpoonup> string)" where
  \<comment> \<open>the inner loop of \<open>_build_alias_map\<close>\<close>
  "add_aliases canonical als m = foldl (\<lambda>m alias. m(lower alias \<mapsto> canonical)) m als"

definition build_from :: "(string \<times> ReferenceRange) list \<Rightarrow> (string \<rightharpoonup> string) \<Rightarrow> (string \<rightharpoonup> string)" where
  \<comment> \<open>the outer loop of \<open>_build_alias_map\<close> over the items of a dictionary\<close>
  "build_from items m =
     foldl (\<lambda>m (canonical, ref). add_aliases canonical (aliases ref) (m(canonical \<mapsto> canonical)))
           m items"

definition build_alias_map :: "string \<rightharpoonup> string" where
  "build_alias_map = build_from NORMAL_RANGES Map.empty"

definition ALIAS_MAP :: "string \<rightharpoonup> string" where
  "ALIAS_MAP = build_alias_map"

definition lookup :: "string \<Rightarrow> error + (string \<times> ReferenceRange) option" where
  \<comment> \<open>\<open>Inr None\<close> is the source's \<open>None\<close>; \<open>NORMAL_RANGES[canonical]\<close> raises
      \<open>KeyError\<close> on a missing key\<close>
  "lookup test_name =
     (let key = lower (strip test_name)
      in case ALIAS_MAP key of
           None \<Rightarrow> Inr None
         | Some canonical \<Rightarrow>
             (case map_of NORMAL_RANGES canonical of
                None \<Rightarrow> Inl KeyError
              | Some ref \<Rightarrow> Inr (Some (canonical, ref))))"

section \<open>Parser: text to lab values\<close>

record ExtractedTest =
  raw_name :: string
  "value" :: real
  line :: string

definition ws :: re where
  "ws = Cls isspace"

definition NOISE_PATTERNS :: re where
  \<comment> \<open>compiled with \<open>re.IGNORECASE | re.VERBOSE\<close>\<close>
  "NOISE_PATTERNS = alt
     [seq [Bol, str_i ''page'', ws],
      seq [Bol, str_i ''date'', ws],
      seq [Bol, str_i ''sample'', Star ws, str_i ''id''],
      seq [Bol, str_i ''patient'', ws],
      seq [Bol, str_i ''referred'', ws],
      seq [Bol, str_i ''age'', ws],
      seq [Bol, str_i ''test'', Plus ws, str_i ''name'', WordB],
      seq [Bol, str_i ''this'', Plus ws, str_i ''report''],
      seq [chr CHR ''*'', chr CHR ''*'', Star (chr CHR ''*'')],
      seq [Bol, str_i ''dr'', chr CHR ''.'', ws],
      seq [Bol, str_i ''chief'', ws]]"

definition is_noise :: "string \<Rightarrow> bool" where
  "is_noise l =
     (let stripped = strip l
      in if length stripped < 4 then True else re_search NOISE_PATTERNS stripped)"

definition name_char :: "char \<Rightarrow> bool" where
  \<comment> \<open>the class \<open>[A-Za-z0-9 /\-\(\),.:']\<close>\<close>
  "name_char c = (ascii_alpha c \<or> ascii_digit c \<or> c \<in> set '' /-(),.:'' \<or> code c = 39)"

definition sep_char :: "char \<Rightarrow> bool" where
  \<comment> \<open>the class \<open>[:\.\-]\<close> with an en dash and an em dash, which lie beyond U+00FF\<close>
  "sep_char c = (c \<in> set '':.-'')"

definition number :: re where
  \<comment> \<open>\<open>\d+(?:\.\d+)?\<close>\<close>
  "number = Seq (Plus (Cls isdecimal)) (Opt (Seq (chr CHR ''.'') (Plus (Cls isdecimal))))"

definition TABULAR_PATTERN :: re where
  "TABULAR_PATTERN = seq
     [Bol, Star ws,
      Grp ''name'' (Seq (Cls ascii_alpha) (LazyStar (Cls name_char))),
      Star ws, Star (Cls sep_char), Plus ws,
      Grp ''value'' number,
      WordB]"

definition COLON_PATTERN :: re where
  "COLON_PATTERN = seq
     [Bol, Star ws,
      Grp ''name'' (Seq (Cls ascii_alpha) (LazyPlus (Cls name_char))),
      Star ws, chr CHR '':'', Star ws,
      Grp ''value'' number,
      WordB]"

definition clean_name :: "string \<Rightarrow> string" where
  "clean_name raw = rstrip_chars '':.- '' (strip (sub_spaces raw))"

type_synonym seen = "(string \<times> ExtractedTest) list"

definition add :: "seen \<Rightarrow> string \<Rightarrow> string \<Rightarrow> string \<Rightarrow> seen" where
  \<comment> \<open>the closure \<open>_add\<close>; the dictionary \<open>seen\<close> it updates is passed and returned, in
      insertion order\<close>
  "add sn name value_str l =
     (let cleaned = clean_name name
      in if cleaned = [] \<or> length cleaned < 2 then sn
         else if re_fullmatch (Plus (Cls (\<lambda>c. isdecimal c \<or> isspace c \<or> c = CHR ''.''))) cleaned then sn
         else (case py_float value_str of
                 None \<Rightarrow> sn
               | Some v \<Rightarrow>
                   (let key = lower cleaned
                    in if key \<notin> set (map fst sn)
                       then sn @ [(key, \<lparr>raw_name = cleaned, value = v, line = strip l\<rparr>)]
                       else sn)))"

definition add_match :: "seen \<Rightarrow> (string \<times> string) list \<Rightarrow> string \<Rightarrow> seen" where
  \<comment> \<open>\<open>_add(m.group("name"), m.group("value"), line)\<close>; both groups are mandatory parts
      of either pattern, so a match binds them\<close>
  "add_match sn m l =
     (case (map_of m ''name'', map_of m ''value'') of
        (Some name, Some value_str) \<Rightarrow> add sn name value_str l
      | _ \<Rightarrow> sn)"

definition parse_line :: "seen \<Rightarrow> string \<Rightarrow> seen" where
  \<comment> \<open>the body of the loop over the lines\<close>
  "parse_line sn l =
     (if is_noise l then sn
      else (case re_match COLON_PATTERN l of
              Some m \<Rightarrow> add_match sn m l
            | None \<Rightarrow>
                (case re_match TABULAR_PATTERN l of
                   Some m \<Rightarrow> add_match sn m l
                 | None \<Rightarrow> sn)))"

definition parse_lines :: "string list \<Rightarrow> seen \<Rightarrow> seen" where
  "parse_lines ls sn = foldl parse_line sn ls"

definition parse_lab_values :: "string \<Rightarrow> ExtractedTest list" where
  "parse_lab_values text = map snd (parse_lines (splitlines text) [])"

section \<open>Analyzer\<close>

datatype Status = Low | Normal | High

datatype Severity = SevNormal | Mild | Moderate | Critical

text \<open>
  \<open>AnalyzedTest\<close> without its field \<open>explanation\<close>: that text is formatted from the
  other fields by \<open>_explain\<close> after the record is built, and nothing reads it back.
\<close>

record AnalyzedTest =
  canonical_name :: string
  raw_name :: string
  "value" :: real
  min_value :: real
  max_value :: real
  unit :: string
  status :: Status
  deviation_pct :: real
  severity :: Severity

record AnalysisReport =
  matched :: "AnalyzedTest list"
  unrecognized :: "ExtractedTest list"
  health_score :: int

definition span_of :: "real \<Rightarrow> real" where
  \<comment> \<open>the divisor \<open>span\<close> for a violated boundary:
      \<open>ref.min_value if ref.min_value != 0 else 1.0\<close>, and the same with \<open>max_value\<close>\<close>
  "span_of boundary = (if boundary \<noteq> 0 then boundary else 1)"

definition classify :: "real \<Rightarrow> ReferenceRange \<Rightarrow> error + (Status \<times> real)" where
  "classify v ref =
     (if v < ReferenceRange.min_value ref then
        (let span = span_of (ReferenceRange.min_value ref)
         in case py_truediv \<bar>float_sub (ReferenceRange.min_value ref) v\<bar> span of
              Inl e \<Rightarrow> Inl e
            | Inr q \<Rightarrow> Inr (Low, py_round1 (float_mul q 100)))
      else if ReferenceRange.max_value ref < v then
        (let span = span_of (ReferenceRange.max_value ref)
         in case py_truediv \<bar>float_sub v (ReferenceRange.max_value ref)\<bar> span of
              Inl e \<Rightarrow> Inl e
            | Inr q \<Rightarrow> Inr (High, py_round1 (float_mul q 100)))
      else Inr (Normal, 0))"

definition severity_level :: "Status \<Rightarrow> real \<Rightarrow> Severity" where
  "severity_level st dev =
     (if st = Normal then SevNormal
      else if st = High then
        (if dev \<le> 10 then Mild
         else if dev \<le> 30 then Moderate
         else Critical)
      else if dev \<le> 10 then Mild
      else if dev \<le> 25 then Moderate
      else Critical)"

fun penalty_loop :: "real \<Rightarrow> AnalyzedTest list \<Rightarrow> real \<Rightarrow> error + real" where
  \<comment> \<open>the loop of \<open>_compute_health_score\<close>, the running \<open>penalty\<close> as last argument\<close>
  "penalty_loop max_penalty_per_test [] penalty = Inr penalty"
| "penalty_loop max_penalty_per_test (t # ts) penalty =
     (if status t \<noteq> Normal then
        (let raw = min (deviation_pct t) 100
         in case py_truediv raw (float_add raw 20) of
              Inl e \<Rightarrow> Inl e
            | Inr q \<Rightarrow>
                penalty_loop max_penalty_per_test ts
                  (float_add penalty (float_mul max_penalty_per_test q)))
      else penalty_loop max_penalty_per_test ts penalty)"

definition compute_health_score :: "AnalyzedTest list \<Rightarrow> error + int" where
  "compute_health_score tests =
     (if tests = [] then Inr 100
      else
        (let total_tests = length tests
         in case py_truediv 100 (real total_tests) of
              Inl e \<Rightarrow> Inl e
            | Inr max_penalty_per_test \<Rightarrow>
                (case penalty_loop max_penalty_per_test tests 0 of
                   Inl e \<Rightarrow> Inl e
                 | Inr penalty \<Rightarrow> Inr (max 0 (py_round (float_sub 100 penalty))))))"

definition analyzed_test :: "ExtractedTest \<Rightarrow> string \<Rightarrow> ReferenceRange \<Rightarrow> Status \<Rightarrow> real \<Rightarrow> AnalyzedTest" where
  \<comment> \<open>the record built in the loop of \<open>analyze\<close>\<close>
  "analyzed_test ext canonical ref st deviation =
     \<lparr>canonical_name = canonical,
      raw_name = ExtractedTest.raw_name ext,
      value = ExtractedTest.value ext,
      min_value = ReferenceRange.min_value ref,
      max_value = ReferenceRange.max_value ref,
      unit = ReferenceRange.unit ref,
      status = st,
      deviation_pct = deviation,
      severity = severity_level st deviation\<rparr>"

fun analyze_loop :: "ExtractedTest list \<Rightarrow> AnalysisReport \<Rightarrow> error + AnalysisReport" where
  "analyze_loop [] report = Inr report"
| "analyze_loop (ext # tests) report =
     (case lookup (ExtractedTest.raw_name ext) of
        Inl e \<Rightarrow> Inl e
      | Inr None \<Rightarrow> analyze_loop tests (report\<lparr>unrecognized := unrecognized report @ [ext]\<rparr>)
      | Inr (Some (canonical, ref)) \<Rightarrow>
          (case classify (ExtractedTest.value ext) ref of
             Inl e \<Rightarrow> Inl e
           | Inr (st, deviation) \<Rightarrow>
               analyze_loop tests
                 (report\<lparr>matched := matched report @ [analyzed_test ext canonical ref st deviation]\<rparr>)))"

definition analyze :: "ExtractedTest list \<Rightarrow> error + AnalysisReport" where
  "analyze tests =
     (case analyze_loop tests \<lparr>matched = [], unrecognized = [], health_score = 100\<rparr> of
        Inl e \<Rightarrow> Inl e
      | Inr report \<Rightarrow>
          (case compute_health_score (matched report) of
             Inl e \<Rightarrow> Inl e
           | Inr score \<Rightarrow> Inr (report\<lparr>health_score := score\<rparr>)))"

section \<open>Properties of the classifier\<close>

text \<open>
  C4: the severity tier of an abnormal result depends on the direction. For status High a
  deviation of at most 10 is Mild, above 10 and at most 30 Moderate, above 30 Critical;
  for status Low the tiers end at 10 and 25. The thresholds hold for every deviation, in
  particular for every non-negative one; at 28 a High result is Moderate and a Low result
  is Critical.
\<close>

theorem severity_level_thresholds:
  "(d \<le> 10 \<longrightarrow> severity_level High d = Mild)
   \<and> (10 < d \<and> d \<le> 30 \<longrightarrow> severity_level High d = Moderate)
   \<and> (30 < d \<longrightarrow> severity_level High d = Critical)
   \<and> (d \<le> 10 \<longrightarrow> severity_level Low d = Mild)
   \<and> (10 < d \<and> d \<le> 25 \<longrightarrow> severity_level Low d = Moderate)
   \<and> (25 < d \<longrightarrow> severity_level Low d = Critical)"
  by (simp add: severity_level_def)

theorem severity_level_thresholds_witness:
  "severity_level High 4 = Mild \<and> severity_level High 28 = Moderate
   \<and> severity_level High 31 = Critical \<and> severity_level Low 4 = Mild
   \<and> severity_level Low 20 = Moderate \<and> severity_level Low 28 = Critical"
  using severity_level_thresholds [of 4] severity_level_thresholds [of 28]
    severity_level_thresholds [of 31] severity_level_thresholds [of 20]
  by simp

end
